theory Spec2Isabelle
  imports Main
begin

section \<open>The sample module \<open>test-fixtures/sample.py\<close>\<close>

text \<open>
  The module holds two classes (\<open>Application\<close>, \<open>ApiService\<close>), one free function
  (\<open>format_message\<close>) and three module-level constants. The embedding below passes state
  explicitly: an object is a record, a method takes the object and the world before the call
  and returns its result, the object after the call and the world after the call. The only
  part of the world the module touches is standard output, written by \<open>print\<close>.
  Python's \<open>str\<close> is \<open>string\<close>, its unbounded \<open>int\<close> is \<open>int\<close>, and a method that
  returns \<open>None\<close> returns \<open>()\<close>.
\<close>

subsection \<open>The world: standard output\<close>

record world =
  stdout :: string

text \<open>\<open>print(s)\<close> writes \<open>s\<close> and a newline to standard output.\<close>

definition py_print :: "string \<Rightarrow> world \<Rightarrow> world" where
  "py_print s w = w\<lparr>stdout := stdout w @ s @ [CHR 0x0A]\<rparr>"

text \<open>Selectors for what a method call gives back.\<close>

fun returned :: "'r \<times> 'o \<times> world \<Rightarrow> 'r" where
  "returned (r, self, w) = r"

fun self_of :: "'r \<times> 'o \<times> world \<Rightarrow> 'o" where
  "self_of (r, self, w) = self"

fun world_of :: "'r \<times> 'o \<times> world \<Rightarrow> world" where
  "world_of (r, self, w) = w"

subsection \<open>class Application\<close>

text \<open>The attributes \<open>name\<close>, \<open>version\<close> and \<open>_running\<close> (here \<open>running\<close>).\<close>

record Application =
  name :: string
  version :: string
  running :: bool

text \<open>\<open>__init__(self, name, version)\<close>\<close>

definition Application_init :: "string \<Rightarrow> string \<Rightarrow> Application" where
  "Application_init n v = \<lparr>name = n, version = v, running = False\<rparr>"

definition get_name :: "Application \<Rightarrow> world \<Rightarrow> string \<times> Application \<times> world" where
  "get_name self w = (name self, self, w)"

definition set_name :: "Application \<Rightarrow> string \<Rightarrow> world \<Rightarrow> unit \<times> Application \<times> world" where
  "set_name self n w = ((), self\<lparr>name := n\<rparr>, w)"

text \<open>
  \<open>start\<close> and \<open>stop\<close> assign the flag first and print afterwards; the printed line is
  built from the attributes of the object as it is after the assignment.
\<close>

definition start :: "Application \<Rightarrow> world \<Rightarrow> unit \<times> Application \<times> world" where
  "start self w =
     (let self1 = self\<lparr>running := True\<rparr>;
          w1 = py_print (''Starting '' @ name self1 @ '' v'' @ version self1) w
      in ((), self1, w1))"

definition stop :: "Application \<Rightarrow> world \<Rightarrow> unit \<times> Application \<times> world" where
  "stop self w =
     (let self1 = self\<lparr>running := False\<rparr>;
          w1 = py_print (''Stopping '' @ name self1) w
      in ((), self1, w1))"

subsection \<open>class ApiService\<close>

record ApiService =
  api_key :: string
  timeout :: int
  retries :: int

text \<open>
  \<open>__init__(self, api_key, timeout=5000)\<close>: the second argument is optional, \<open>None\<close> here
  meaning that the caller did not pass it, in which case the parameter takes the default
  written in the signature.
\<close>

definition ApiService_init :: "string \<Rightarrow> int option \<Rightarrow> ApiService" where
  "ApiService_init k t =
     \<lparr>api_key = k, timeout = (case t of None \<Rightarrow> 5000 | Some t' \<Rightarrow> t'), retries = 3\<rparr>"

text \<open>
  An exception that leaves a call is a value \<open>Inl e\<close> of the result; a normal return is
  \<open>Inr r\<close>.
\<close>

datatype error = Raised string

text \<open>
  \<open>fetch_data\<close> and \<open>post_data\<close> are \<open>async def\<close>: a call makes a coroutine, and the
  functions below are the coroutine's body, run by whoever awaits it. Neither body contains
  an \<open>await\<close>, so it runs to its end without suspending. A \<open>dict\<close> is a map.
\<close>

definition fetch_data ::
  "ApiService \<Rightarrow> string \<Rightarrow> world \<Rightarrow> (error + ('k \<rightharpoonup> 'v)) \<times> ApiService \<times> world" where
  "fetch_data self endpoint w = (Inr Map.empty, self, w)"

definition post_data ::
  "ApiService \<Rightarrow> string \<Rightarrow> ('k \<rightharpoonup> 'v) \<Rightarrow> world \<Rightarrow> (error + unit) \<times> ApiService \<times> world" where
  "post_data self endpoint data w = (Inr (), self, w)"

subsection \<open>format_message\<close>

text \<open>
  \<open>format_message(message, prefix=None)\<close>: the prefix is \<open>None\<close> or a string, and
  \<open>if prefix:\<close> tests its truth value, which is false for \<open>None\<close> and for the empty
  string.
\<close>

definition truthy :: "string option \<Rightarrow> bool" where
  "truthy p = (case p of None \<Rightarrow> False | Some s \<Rightarrow> s \<noteq> [])"

definition format_message :: "string \<Rightarrow> string option \<Rightarrow> world \<Rightarrow> string \<times> world" where
  "format_message message prefix w =
     (case prefix of
        Some p \<Rightarrow> if truthy prefix then (p @ '': '' @ message, w) else (message, w)
      | None \<Rightarrow> (message, w))"

subsection \<open>Module-level constants\<close>

definition DEFAULT_TIMEOUT :: int where
  "DEFAULT_TIMEOUT = 5000"

definition MAX_RETRIES :: int where
  "MAX_RETRIES = 3"

definition API_VERSION :: string where
  "API_VERSION = ''v1''"

subsection \<open>Sequences of method calls on one Application\<close>

text \<open>
  A reachable state of an Application is what a finite sequence of calls of its methods makes
  of a freshly constructed object. \<open>exec\<close> performs one call, \<open>run\<close> a sequence of them.
\<close>

datatype call = Get_name | Set_name string | Start | Stop

fun exec :: "call \<Rightarrow> Application \<times> world \<Rightarrow> Application \<times> world" where
  "exec Get_name (a, w) = (self_of (get_name a w), world_of (get_name a w))"
| "exec (Set_name n) (a, w) = (self_of (set_name a n w), world_of (set_name a n w))"
| "exec Start (a, w) = (self_of (start a w), world_of (start a w))"
| "exec Stop (a, w) = (self_of (stop a w), world_of (stop a w))"

fun run :: "call list \<Rightarrow> Application \<times> world \<Rightarrow> Application \<times> world" where
  "run [] s = s"
| "run (c # cs) s = run cs (exec c s)"

text \<open>
  The specification's reading of the flag: the lifecycle calls are \<open>start\<close> and \<open>stop\<close>,
  and the flag says that there was one and the last of them was \<open>start\<close>.
\<close>

fun is_lifecycle :: "call \<Rightarrow> bool" where
  "is_lifecycle Start = True"
| "is_lifecycle Stop = True"
| "is_lifecycle Get_name = False"
| "is_lifecycle (Set_name n) = False"

definition last_lifecycle_call_was_start :: "call list \<Rightarrow> bool" where
  "last_lifecycle_call_was_start cs =
     (let ls = filter is_lifecycle cs in ls \<noteq> [] \<and> last ls = Start)"

section \<open>Properties\<close>

subsection \<open>format_message\<close>

text \<open>
  C1 (as amended). \<open>format_message("hi")\<close> returns \<open>"hi"\<close> and
  \<open>format_message("hi", "LOG")\<close> returns \<open>"LOG: hi"\<close>. For every message and every
  supplied prefix that is not the empty string, the result is the prefix, a colon and a
  space, then the message; with the prefix absent the result is the bare message.
\<close>

theorem format_message_result:
  "fst (format_message ''hi'' None w) = ''hi''
   \<and> fst (format_message ''hi'' (Some ''LOG'') w) = ''LOG: hi''
   \<and> (p \<noteq> [] \<longrightarrow> fst (format_message m (Some p) w) = p @ '': '' @ m)
   \<and> fst (format_message m None w) = m"
  by (simp add: format_message_def truthy_def)

theorem format_message_result_witness:
  "''LOG'' \<noteq> [] \<and> fst (format_message ''hi'' (Some ''LOG'') \<lparr>stdout = ''''\<rparr>) = ''LOG: hi''"
  using format_message_result [of "\<lparr>stdout = ''''\<rparr>" "''LOG''" "''hi''"] by simp

text \<open>
  C1 as first stated has the prefixed form for every supplied prefix. A supplied empty
  prefix is a counterexample: \<open>format_message("hi", "")\<close> is \<open>"hi"\<close>, not \<open>": hi"\<close>.
\<close>

theorem format_message_empty_prefix_counterexample:
  "fst (format_message ''hi'' (Some '''') \<lparr>stdout = ''''\<rparr>) \<noteq> '''' @ '': '' @ ''hi''"
  by (simp add: format_message_def truthy_def)

text \<open>
  C9. With the empty string as prefix, \<open>format_message\<close> returns the bare message, with no
  colon before it, exactly as it does when the prefix is absent.
\<close>

theorem format_message_empty_prefix:
  "fst (format_message m (Some '''') w) = m
   \<and> format_message m (Some '''') w = format_message m None w"
  by (simp add: format_message_def truthy_def)

text \<open>
  C8. \<open>format_message\<close> is pure and deterministic: its result is a function of the message
  and the prefix alone, so two calls with equal arguments return equal results whatever the
  world is at each call (it reads no state), and the world after a call is the world before
  it (it writes no state).
\<close>

theorem format_message_pure:
  "fst (format_message m p w1) = fst (format_message m p w2)
   \<and> snd (format_message m p w) = w"
  by (simp add: format_message_def truthy_def split: option.split)

subsection \<open>Application\<close>

lemma run_append: "run (cs @ ds) s = run ds (run cs s)"
  by (induction cs arbitrary: s) simp_all

lemma running_exec:
  "running (fst (exec c (a, w))) = (if is_lifecycle c then c = Start else running a)"
  by (cases c) (simp_all add: get_name_def set_name_def start_def stop_def)

lemma running_run:
  "running (fst (run cs (a, w))) =
     (if filter is_lifecycle cs = [] then running a else last (filter is_lifecycle cs) = Start)"
proof (induction cs rule: rev_induct)
  case Nil
  show ?case by simp
next
  case (snoc c cs)
  obtain a' w' where s: "run cs (a, w) = (a', w')"
    by (cases "run cs (a, w)")
  have "running (fst (run (cs @ [c]) (a, w))) = running (fst (exec c (a', w')))"
    by (simp add: run_append s)
  also have "\<dots> = (if is_lifecycle c then c = Start else running a')"
    by (rule running_exec)
  finally show ?case
    using snoc.IH by (simp add: s)
qed

text \<open>
  C2. Right after construction with any name and version the flag \<open>_running\<close> is false;
  after any call of \<open>start\<close> it is true; after any call of \<open>stop\<close> it is false; and in
  every reachable state, that is after any sequence of method calls on a freshly constructed
  Application, the flag says that the last lifecycle call was \<open>start\<close>.
\<close>

theorem running_reflects_last_lifecycle_call:
  "running (Application_init n v) = False
   \<and> running (self_of (start a w)) = True
   \<and> running (self_of (stop a w)) = False
   \<and> running (fst (run cs (Application_init n v, w))) = last_lifecycle_call_was_start cs"
  by (simp add: running_run last_lifecycle_call_was_start_def Application_init_def
        start_def stop_def)

text \<open>
  C6. After \<open>set_name(s)\<close> on any Application, \<open>get_name()\<close> returns \<open>s\<close>; on a freshly
  constructed \<open>Application(name, version)\<close>, \<open>get_name()\<close> returns \<open>name\<close>.
\<close>

theorem get_name_after_set_name:
  "returned (get_name (self_of (set_name a s w)) w') = s
   \<and> returned (get_name (Application_init n v) w) = n"
  by (simp add: get_name_def set_name_def Application_init_def)

text \<open>
  C7. Frame conditions on the state of an Application: \<open>start\<close> and \<open>stop\<close> leave \<open>name\<close>
  and \<open>version\<close> as they were, and change nothing but the flag; \<open>set_name\<close> leaves
  \<open>version\<close> and the flag as they were, and changes nothing but \<open>name\<close>; \<open>get_name\<close> leaves
  the object as it was.
\<close>

theorem application_frame:
  "name (self_of (start a w)) = name a \<and> version (self_of (start a w)) = version a
   \<and> name (self_of (stop a w)) = name a \<and> version (self_of (stop a w)) = version a
   \<and> version (self_of (set_name a s w)) = version a
   \<and> running (self_of (set_name a s w)) = running a
   \<and> self_of (start a w) = a\<lparr>running := True\<rparr>
   \<and> self_of (stop a w) = a\<lparr>running := False\<rparr>
   \<and> self_of (set_name a s w) = a\<lparr>name := s\<rparr>
   \<and> self_of (get_name a w) = a"
  by (simp add: start_def stop_def set_name_def get_name_def)

text \<open>
  C10. \<open>start\<close> and \<open>stop\<close> are idempotent on the state of an Application: a second call
  in a row leaves the object, that is its \<open>name\<close>, \<open>version\<close> and flag, as the first call
  left it. (Each call prints its line, so standard output is not the same.)
\<close>

theorem start_stop_idempotent:
  "self_of (start (self_of (start a w)) (world_of (start a w))) = self_of (start a w)
   \<and> self_of (stop (self_of (stop a w)) (world_of (stop a w))) = self_of (stop a w)"
  by (simp add: start_def stop_def)

subsection \<open>ApiService\<close>

text \<open>
  C3. For every \<open>api_key\<close>, the attribute \<open>timeout\<close> of a constructed ApiService is 5000
  when no timeout is passed and is the passed value otherwise, and \<open>retries\<close> is 3 whatever
  the arguments are.
\<close>

theorem ApiService_init_attributes:
  "timeout (ApiService_init k None) = 5000
   \<and> timeout (ApiService_init k (Some t)) = t
   \<and> retries (ApiService_init k t') = 3"
  by (simp add: ApiService_init_def)

text \<open>
  C4. For every ApiService and all arguments, \<open>fetch_data\<close> returns the empty mapping and
  \<open>post_data\<close> returns \<open>None\<close>; neither raises; both leave \<open>api_key\<close>, \<open>timeout\<close> and
  \<open>retries\<close> of the service as they were.
\<close>

theorem stub_methods:
  "returned (fetch_data self endpoint w) = Inr Map.empty
   \<and> returned (post_data self endpoint d w) = Inr ()
   \<and> api_key (self_of (fetch_data self endpoint w)) = api_key self
   \<and> timeout (self_of (fetch_data self endpoint w)) = timeout self
   \<and> retries (self_of (fetch_data self endpoint w)) = retries self
   \<and> api_key (self_of (post_data self endpoint d w)) = api_key self
   \<and> timeout (self_of (post_data self endpoint d w)) = timeout self
   \<and> retries (self_of (post_data self endpoint d w)) = retries self"
  by (simp add: fetch_data_def post_data_def)

subsection \<open>Module-level constants\<close>

text \<open>
  C5. The constants have their literal values: \<open>DEFAULT_TIMEOUT\<close> is 5000,
  \<open>MAX_RETRIES\<close> is 3 and \<open>API_VERSION\<close> is \<open>"v1"\<close>.
\<close>

theorem module_constants:
  "DEFAULT_TIMEOUT = 5000 \<and> MAX_RETRIES = 3 \<and> API_VERSION = ''v1''"
  by (simp add: DEFAULT_TIMEOUT_def MAX_RETRIES_def API_VERSION_def)

end
